theory Spec2Isabelle
  imports Complex_Main "HOL-Library.Multiset"
begin

section \<open>Data model\<close>

text \<open>
  A JavaScript string is a sequence of UTF-16 code units. Each code unit is modelled by its
  numeric value, so that the delimiters and option symbols of the parser, which lie outside
  ASCII, are single elements, as they are for \<^verbatim>\<open>split\<close>, \<^verbatim>\<open>startsWith\<close>
  and indexing in the source.
\<close>

type_synonym jsstring = "nat list"

definition js :: "string \<Rightarrow> jsstring" where
  "js s = map of_char s"

text \<open>
  The interfaces \<^verbatim>\<open>Option\<close> and \<^verbatim>\<open>Question\<close>. The three optional fields
  of a question are \<open>None\<close> when the property is absent.
\<close>

record QOption =
  otext :: jsstring
  isCorrect :: bool

record Question =
  qid :: jsstring
  questionText :: jsstring
  options :: "QOption list"
  explanation :: jsstring
  userNote :: "jsstring option"
  isMarked :: "bool option"
  hasBeenPracticed :: "bool option"

text \<open>Truthiness of an optional boolean property: \<^verbatim>\<open>undefined\<close> and \<^verbatim>\<open>false\<close> are falsy.\<close>

fun truthy :: "bool option \<Rightarrow> bool" where
  "truthy (Some b) = b"
| "truthy None = False"

text \<open>
  \<open>isMarked\<close> defaults to false: the program only ever tests its truthiness, and a question
  without the property is an unmarked question. \<open>withDefaultMark\<close> writes the default out, so
  that two banks are the same state with respect to this default when they agree after it.
\<close>

definition withDefaultMark :: "Question \<Rightarrow> Question" where
  "withDefaultMark q = q\<lparr>isMarked := Some (truthy (isMarked q))\<rparr>"

definition MAX_QUESTIONS :: nat where
  "MAX_QUESTIONS = 5000"

definition DELETION_CHUNK_SIZE :: nat where
  "DELETION_CHUNK_SIZE = 50"

section \<open>The bank: component App\<close>

text \<open>
  The state of \<^verbatim>\<open>App\<close> that the bank operations read and write: the in-memory
  sequence \<open>questions\<close>, the value held by the browser storage under the bank's key
  (\<open>None\<close> when nothing was ever written), and the state of the confirmation dialog.
\<close>

record ModalState =
  isOpen :: bool
  newQuestions :: "Question list"

record App =
  questions :: "Question list"
  stored :: "Question list option"
  modalState :: ModalState

definition closedModal :: ModalState where
  "closedModal = \<lparr>isOpen = False, newQuestions = []\<rparr>"

text \<open>
  \<^verbatim>\<open>saveQuestions\<close> writes to the storage and then replaces the in-memory sequence, both
  inside one \<^verbatim>\<open>try\<close>. The write may throw (quota, disabled storage); the argument
  \<open>ok\<close> says whether it returned normally. When it throws, the handler logs and neither the
  storage nor the in-memory sequence changes.
\<close>

definition saveQuestions :: "bool \<Rightarrow> Question list \<Rightarrow> App \<Rightarrow> App" where
  "saveQuestions ok new s = (if ok then s\<lparr>stored := Some new, questions := new\<rparr> else s)"

definition handleSaveNewQuestions :: "bool \<Rightarrow> Question list \<Rightarrow> App \<Rightarrow> App" where
  "handleSaveNewQuestions ok new s =
     (if length (questions s) + length new > MAX_QUESTIONS
      then s\<lparr>modalState := \<lparr>isOpen = True, newQuestions = new\<rparr>\<rparr>
      else saveQuestions ok (questions s @ new) s)"

definition handleModalConfirm :: "bool \<Rightarrow> App \<Rightarrow> App" where
  "handleModalConfirm ok s =
     (let questionsToKeep = drop DELETION_CHUNK_SIZE (questions s);
          updatedQuestions = questionsToKeep @ newQuestions (modalState s)
      in (saveQuestions ok updatedQuestions s)\<lparr>modalState := closedModal\<rparr>)"

definition handleModalCancel :: "App \<Rightarrow> App" where
  "handleModalCancel s = s\<lparr>modalState := closedModal\<rparr>"

definition handleDeleteQuestion :: "bool \<Rightarrow> jsstring \<Rightarrow> App \<Rightarrow> App" where
  "handleDeleteQuestion ok questionId s =
     saveQuestions ok (filter (\<lambda>q. qid q \<noteq> questionId) (questions s)) s"

definition handleUpdateQuestionNote :: "bool \<Rightarrow> jsstring \<Rightarrow> jsstring \<Rightarrow> App \<Rightarrow> App" where
  "handleUpdateQuestionNote ok questionId n s =
     saveQuestions ok
       (map (\<lambda>q. if qid q = questionId then q\<lparr>userNote := Some n\<rparr> else q) (questions s)) s"

definition handleToggleMark :: "bool \<Rightarrow> jsstring \<Rightarrow> App \<Rightarrow> App" where
  "handleToggleMark ok questionId s =
     saveQuestions ok
       (map (\<lambda>q. if qid q = questionId then q\<lparr>isMarked := Some (\<not> truthy (isMarked q))\<rparr> else q)
          (questions s)) s"

definition handleMarkAsPracticed :: "bool \<Rightarrow> jsstring \<Rightarrow> App \<Rightarrow> App" where
  "handleMarkAsPracticed ok questionId s =
     saveQuestions ok
       (map (\<lambda>q. if qid q = questionId then q\<lparr>hasBeenPracticed := Some True\<rparr> else q)
          (questions s)) s"

text \<open>
  The questions the dialog lists for deletion: the prop \<^verbatim>\<open>questionsToDelete\<close> passed to
  \<^verbatim>\<open>ConfirmationModal\<close>.
\<close>

definition questionsToDelete :: "App \<Rightarrow> Question list" where
  "questionsToDelete s = take DELETION_CHUNK_SIZE (questions s)"

section \<open>The parser\<close>

subsection \<open>String operations of the runtime\<close>

text \<open>
  The code units that \<^verbatim>\<open>trim\<close> strips and that \<^verbatim>\<open>\s\<close> matches (white space and
  line terminators), and those that \<^verbatim>\<open>\w\<close> matches (ASCII letters, digits, underscore).
\<close>

definition isSpace :: "nat \<Rightarrow> bool" where
  "isSpace c \<longleftrightarrow>
     c \<in> {9, 10, 11, 12, 13, 32, 160, 5760, 8232, 8233, 8239, 8287, 12288, 65279}
     \<or> (8192 \<le> c \<and> c \<le> 8202)"

definition isWord :: "nat \<Rightarrow> bool" where
  "isWord c \<longleftrightarrow>
     (48 \<le> c \<and> c \<le> 57) \<or> (65 \<le> c \<and> c \<le> 90) \<or> c = 95 \<or> (97 \<le> c \<and> c \<le> 122)"

definition trim :: "jsstring \<Rightarrow> jsstring" where
  "trim s = rev (dropWhile isSpace (rev (dropWhile isSpace s)))"

text \<open>
  \<^verbatim>\<open>text.replace(/\\([^\s\w])/g, '$1')\<close>: scanning from the left, a backslash (92)
  followed by a code unit that is neither white space nor a word character is replaced,
  together with that code unit, by the code unit alone; the scan resumes after the pair.
\<close>

fun unescape :: "jsstring \<Rightarrow> jsstring" where
  "unescape (c # d # cs) =
     (if c = 92 \<and> \<not> isSpace d \<and> \<not> isWord d then d # unescape cs
      else c # unescape (d # cs))"
| "unescape cs = cs"

text \<open>
  \<^verbatim>\<open>s.split(sep)\<close> for a non-empty separator string: the occurrences of \<open>sep\<close> are
  found from the left without overlap, and the pieces between them are returned, empty
  pieces included. The program only ever splits on its four non-empty literals.
\<close>

function splitFrom :: "jsstring \<Rightarrow> jsstring \<Rightarrow> jsstring \<Rightarrow> jsstring list" where
  "splitFrom sep acc [] = [rev acc]"
| "splitFrom sep acc (c # cs) =
     (if sep \<noteq> [] \<and> take (length sep) (c # cs) = sep
      then rev acc # splitFrom sep [] (drop (length sep) (c # cs))
      else splitFrom sep (c # acc) cs)"
  by pat_completeness auto
termination
  by (relation "measure (\<lambda>(sep, acc, s). length s)") auto

definition split :: "jsstring \<Rightarrow> jsstring \<Rightarrow> jsstring list" where
  "split sep s = splitFrom sep [] s"

text \<open>The filter callbacks \<^verbatim>\<open>p => p.trim()\<close> and \<^verbatim>\<open>line => line.trim() !== ''\<close>.\<close>

definition nonBlank :: "jsstring \<Rightarrow> bool" where
  "nonBlank p \<longleftrightarrow> trim p \<noteq> []"

text \<open>The decimal digits of a non-negative integer, as a template literal renders it.\<close>

function digits :: "nat \<Rightarrow> jsstring" where
  "digits n = (if n < 10 then [48 + n] else digits (n div 10) @ [48 + n mod 10])"
  by pat_completeness auto
termination
  by (relation "measure id") auto

declare digits.simps [simp del]

subsection \<open>What the parser reads from the runtime\<close>

text \<open>
  Besides its argument the parser reads two things from its environment: the values
  returned by the successive calls of \<^verbatim>\<open>Math.random()\<close> and those returned by the
  successive calls of \<^verbatim>\<open>Date.now()\<close>. Both are given as sequences; a position in
  each says how many values have been consumed. A value of \<^verbatim>\<open>Math.random()\<close> is a
  double in the interval from 0 (included) to 1 (excluded); it is modelled by the rational
  it denotes, and \<open>numberToString\<close> is the runtime's conversion of such a number to a string
  inside a template literal.
\<close>

record Runtime =
  mathRandom :: "nat \<Rightarrow> rat"
  dateNow :: "nat \<Rightarrow> nat"
  numberToString :: "rat \<Rightarrow> jsstring"

definition validRandom :: "(nat \<Rightarrow> rat) \<Rightarrow> bool" where
  "validRandom rnd \<longleftrightarrow> (\<forall>k. 0 \<le> rnd k \<and> rnd k < 1)"

subsection \<open>shuffleArray\<close>

text \<open>
  The destructuring swap \<^verbatim>\<open>[a[i], a[j]] = [a[j], a[i]]\<close> reads both elements before it
  writes. The loop runs \<open>i\<close> from \<open>length - 1\<close> down to 1 and draws one random value per
  round, \<open>j = floor (random * (i + 1))\<close>; \<open>k\<close> is the position in the sequence of random
  values and is returned advanced. With a random value in range, \<open>j \<le> i\<close> and both
  indices are inside the array; the properties proved below use nothing else of \<open>j\<close>.

  The product is taken exactly here. The code multiplies doubles, and the rounded product
  can reach the next integer (0.8333333333333333 * 6 is 5.0), so for such a draw the code
  swaps with the next index, which is still at most \<open>i\<close>. Every index the code can compute
  for a round is the index this definition computes for some value in range (for the index
  \<open>j\<close> of \<open>i + 1\<close>, the value \<open>(2 * j + 1) / (2 * (i + 1))\<close>), so what is proved for all
  random values in range covers every run of the code; the order of a particular shuffle
  is the code's only where the two products have the same integer part, as they have for
  the draw 0 used in the concrete runs below.
\<close>

definition swap :: "nat \<Rightarrow> nat \<Rightarrow> 'a list \<Rightarrow> 'a list" where
  "swap i j xs = xs[i := xs ! j, j := xs ! i]"

fun shuffleFrom :: "(nat \<Rightarrow> rat) \<Rightarrow> nat \<Rightarrow> nat \<Rightarrow> 'a list \<Rightarrow> 'a list \<times> nat" where
  "shuffleFrom rnd k 0 xs = (xs, k)"
| "shuffleFrom rnd k (Suc m) xs =
     (let j = nat \<lfloor>rnd k * of_nat (Suc m + 1)\<rfloor>
      in shuffleFrom rnd (k + 1) m (swap (Suc m) j xs))"

definition shuffleArray :: "(nat \<Rightarrow> rat) \<Rightarrow> nat \<Rightarrow> 'a list \<Rightarrow> 'a list \<times> nat" where
  "shuffleArray rnd k array = shuffleFrom rnd k (length array - 1) array"

subsection \<open>parseGeneratedText\<close>

text \<open>The four correctness symbols: dollar, euro, yen, cent. The dollar (36) marks the correct option.\<close>

definition symbols :: "nat list" where
  "symbols = [36, 8364, 165, 162]"

text \<open>
  The first part of the callback mapped over the option lines, applied to the trimmed
  line: the symbol and the trimmed text after it, for a line that starts with a backslash
  and a symbol or with a symbol; \<open>None\<close> for any other line.
\<close>

fun symbolAndText :: "jsstring \<Rightarrow> (nat \<times> jsstring) option" where
  "symbolAndText (c # d # rest) =
     (if c = 92 \<and> d \<in> set symbols then Some (d, trim rest)
      else if c \<in> set symbols then Some (c, trim (d # rest))
      else None)"
| "symbolAndText [c] = (if c \<in> set symbols then Some (c, trim []) else None)"
| "symbolAndText [] = None"

text \<open>
  The whole callback, with the set \<^verbatim>\<open>seenSymbols\<close> it reads and extends passed through:
  a line with empty text or with a symbol already seen gives \<^verbatim>\<open>null\<close> and leaves the set
  as it is.
\<close>

definition mapLine :: "nat set \<Rightarrow> jsstring \<Rightarrow> QOption option \<times> nat set" where
  "mapLine seenSymbols line =
     (case symbolAndText (trim line) of
        None \<Rightarrow> (None, seenSymbols)
      | Some (symbol, txt) \<Rightarrow>
          if txt = [] then (None, seenSymbols)
          else if symbol \<in> seenSymbols then (None, seenSymbols)
          else (Some \<lparr>otext = txt, isCorrect = (symbol = 36)\<rparr>, insert symbol seenSymbols))"

text \<open>\<^verbatim>\<open>optionLines.map(...).filter(opt => opt !== null)\<close>, with the final set of seen symbols.\<close>

fun mapLines :: "nat set \<Rightarrow> jsstring list \<Rightarrow> QOption list \<times> nat set" where
  "mapLines seenSymbols [] = ([], seenSymbols)"
| "mapLines seenSymbols (line # rest) =
     (case mapLine seenSymbols line of
        (None, seen') \<Rightarrow> mapLines seen' rest
      | (Some opt, seen') \<Rightarrow>
          (case mapLines seen' rest of (opts, seen'') \<Rightarrow> (opt # opts, seen'')))"

text \<open>
  The second half of the loop body: from the option lines to the question pushed, if any.
  \<open>pos\<close> holds the positions in the random and clock sequences. The object literal reads
  the clock and one random value for the id, then \<^verbatim>\<open>shuffleArray\<close> draws its own.
\<close>

definition questionOfLines ::
  "Runtime \<Rightarrow> nat \<Rightarrow> jsstring \<Rightarrow> jsstring \<Rightarrow> jsstring list \<Rightarrow> nat \<times> nat
     \<Rightarrow> Question option \<times> (nat \<times> nat)" where
  "questionOfLines rt i qText expl optionLines pos =
     (let opts = fst (mapLines {} optionLines)
      in if length opts > 1 \<and> list_ex isCorrect opts
         then (case pos of (kr, kc) \<Rightarrow>
                 case shuffleArray (mathRandom rt) (kr + 1) opts of (shuffled, kr') \<Rightarrow>
                   (Some \<lparr>qid = js ''q_'' @ digits (dateNow rt kc) @ js ''_''
                                  @ numberToString rt (mathRandom rt kr) @ js ''_'' @ digits i,
                          questionText = qText, options = shuffled, explanation = expl,
                          userNote = None, isMarked = None, hasBeenPracticed = Some False\<rparr>,
                    (kr', kc + 1)))
         else (None, pos))"

text \<open>
  The loop body for the pair \<open>parts[i]\<close>, \<open>parts[i + 1]\<close>; every \<^verbatim>\<open>continue\<close> is a
  result \<open>None\<close> with the positions unchanged. The separators are four section signs (167)
  and five carets (94); lines are split at line feeds (10).
\<close>

definition parsePair ::
  "Runtime \<Rightarrow> nat \<Rightarrow> jsstring \<Rightarrow> jsstring \<Rightarrow> nat \<times> nat \<Rightarrow> Question option \<times> (nat \<times> nat)" where
  "parsePair rt i part0 part1 pos =
     (let qText = trim part0;
          contentParts = filter nonBlank (split [167, 167, 167, 167] part1)
      in case contentParts of
           [optionsPart, explanationContainer] \<Rightarrow>
             (case filter nonBlank (split [94, 94, 94, 94, 94] explanationContainer) of
                [e] \<Rightarrow>
                  (let expl = trim e;
                       optionLines = filter nonBlank (split [10] (trim optionsPart))
                   in if qText = [] \<or> expl = [] \<or> length optionLines = 0 then (None, pos)
                      else questionOfLines rt i qText expl optionLines pos)
              | _ \<Rightarrow> (None, pos))
         | _ \<Rightarrow> (None, pos))"

text \<open>The loop \<^verbatim>\<open>for (let i = 0; i < parts.length; i += 2)\<close> over a list of even length.\<close>

fun parsePairs :: "Runtime \<Rightarrow> nat \<Rightarrow> jsstring list \<Rightarrow> nat \<times> nat \<Rightarrow> Question list" where
  "parsePairs rt i (part0 # part1 # rest) pos =
     (case parsePair rt i part0 part1 pos of
        (None, pos') \<Rightarrow> parsePairs rt (i + 2) rest pos'
      | (Some q, pos') \<Rightarrow> q # parsePairs rt (i + 2) rest pos')"
| "parsePairs rt i rest pos = []"

text \<open>
  The three messages the parser returns: "Input text is empty.", "Invalid format. ..." and
  "Parsing failed. ...". The result pairs the questions with the error, \<open>None\<close> for
  \<^verbatim>\<open>null\<close>. The pairs are separated by five increment signs (8710).
\<close>

datatype ParseError = EmptyInput | InvalidFormat | ParsingFailed

record ParseResult =
  parsed :: "Question list"
  error :: "ParseError option"

definition parseGeneratedText :: "Runtime \<Rightarrow> jsstring \<Rightarrow> ParseResult" where
  "parseGeneratedText rt txt =
     (let processedText = unescape txt
      in if trim processedText = [] then \<lparr>parsed = [], error = Some EmptyInput\<rparr>
         else
           (let parts = filter nonBlank (split [8710, 8710, 8710, 8710, 8710] processedText)
            in if length parts = 0 \<or> length parts mod 2 \<noteq> 0
               then \<lparr>parsed = [], error = Some InvalidFormat\<rparr>
               else
                 (let qs = parsePairs rt 0 parts (0, 0)
                  in if length qs = 0 then \<lparr>parsed = [], error = Some ParsingFailed\<rparr>
                     else \<lparr>parsed = qs, error = None\<rparr>)))"

text \<open>A question with its id blanked, to compare questions apart from their ids.\<close>

definition stripId :: "Question \<Rightarrow> Question" where
  "stripId q = q\<lparr>qid := []\<rparr>"

section \<open>The practice session: component QuestionBankView\<close>

record View =
  newDeck :: "Question list"
  practicedDeck :: "Question list"
  deckPosition :: nat
  isPracticingNew :: bool
  selectedAnswer :: "jsstring option"
  showExplanation :: bool
  isAnalysisMode :: bool
  focusNewOnly :: bool
  noteDraft :: jsstring
  eliminatedOptions :: "jsstring set"
  time :: nat
  isTimerRunning :: bool

text \<open>
  \<^verbatim>\<open>deck.map(dq => questions.find(q => q.id === dq.id)!).filter(Boolean)\<close>: each deck
  entry is replaced by the first question of the bank with its id; an entry whose id is
  not in the bank becomes \<^verbatim>\<open>undefined\<close> and is filtered out.
\<close>

definition updateDeck :: "Question list \<Rightarrow> Question list \<Rightarrow> Question list" where
  "updateDeck qs deck = List.map_filter (\<lambda>dq. find (\<lambda>q. qid q = qid dq) qs) deck"

definition isNew :: "Question \<Rightarrow> bool" where
  "isNew q \<longleftrightarrow> \<not> truthy (hasBeenPracticed q)"

definition isPracticed :: "Question \<Rightarrow> bool" where
  "isPracticed q \<longleftrightarrow> truthy (hasBeenPracticed q)"

text \<open>The test of the effect: both counts equal the sizes of the decks held.\<close>

definition countsUnchanged :: "Question list \<Rightarrow> View \<Rightarrow> bool" where
  "countsUnchanged qs v \<longleftrightarrow>
     length (filter isNew qs) = length (newDeck v)
     \<and> length (filter isPracticed qs) = length (practicedDeck v)"

text \<open>
  The effect that runs when \<open>questions\<close> changes. \<open>rnd\<close> and \<open>k\<close> are the random values
  and the position in them; the position is returned advanced. The component has a second
  effect, on the current question, which follows further down.
\<close>

definition questionsEffect :: "(nat \<Rightarrow> rat) \<Rightarrow> nat \<Rightarrow> Question list \<Rightarrow> View \<Rightarrow> View \<times> nat" where
  "questionsEffect rnd k qs v =
     (let newQs = filter isNew qs;
          practicedQs = filter isPracticed qs
      in if countsUnchanged qs v
         then (v\<lparr>newDeck := updateDeck qs (newDeck v),
                  practicedDeck := updateDeck qs (practicedDeck v)\<rparr>, k)
         else (case shuffleArray rnd k newQs of (nd, k1) \<Rightarrow>
                 case shuffleArray rnd k1 practicedQs of (pd, k2) \<Rightarrow>
                   (v\<lparr>newDeck := nd, practicedDeck := pd, deckPosition := 0,
                      isPracticingNew := (length newQs > 0), selectedAnswer := None,
                      showExplanation := False, eliminatedOptions := {}, time := 0,
                      isTimerRunning := True\<rparr>, k2)))"

definition activeDeck :: "View \<Rightarrow> Question list" where
  "activeDeck v = (if isPracticingNew v then newDeck v else practicedDeck v)"

text \<open>\<^verbatim>\<open>activeDeck[deckPosition]\<close>, \<open>None\<close> for \<^verbatim>\<open>undefined\<close> when the position is out of range.\<close>

definition currentQuestion :: "View \<Rightarrow> Question option" where
  "currentQuestion v =
     (if deckPosition v < length (activeDeck v) then Some (activeDeck v ! deckPosition v) else None)"

text \<open>
  \<^verbatim>\<open>handleNext\<close>. The second component is the id passed to \<^verbatim>\<open>onMarkAsPracticed\<close>, if
  the callback is called.
\<close>

definition handleNext :: "View \<Rightarrow> View \<times> jsstring option" where
  "handleNext v =
     (case currentQuestion v of
        None \<Rightarrow> (v, None)
      | Some q \<Rightarrow>
          (let isLastInNewDeck = (isPracticingNew v \<and> deckPosition v + 1 \<ge> length (newDeck v));
               v1 = (if isLastInNewDeck \<and> \<not> focusNewOnly v \<and> length (practicedDeck v) > 0
                     then v\<lparr>isPracticingNew := False, deckPosition := 0\<rparr>
                     else if deckPosition v + 1 < length (activeDeck v)
                     then v\<lparr>deckPosition := deckPosition v + 1\<rparr>
                     else v)
           in (v1\<lparr>selectedAnswer := None, showExplanation := False, eliminatedOptions := {},
                   time := 0, isTimerRunning := True\<rparr>,
               if isPracticingNew v then Some (qid q) else None)))"

text \<open>
  The condition under which the Next button is disabled: the position is terminal, no
  advance is possible.
\<close>

definition disableNextButton :: "View \<Rightarrow> bool" where
  "disableNextButton v =
     (let isLastInNewDeck = (isPracticingNew v \<and> deckPosition v + 1 \<ge> length (newDeck v));
          isLastInPracticedDeck = (\<not> isPracticingNew v \<and> deckPosition v + 1 \<ge> length (practicedDeck v))
      in isLastInPracticedDeck \<or> (isLastInNewDeck \<and> (focusNewOnly v \<or> length (practicedDeck v) = 0)))"

text \<open>
  A click on Next as \<^verbatim>\<open>App\<close> sees it: \<^verbatim>\<open>onMarkAsPracticed\<close> is
  \<^verbatim>\<open>handleMarkAsPracticed\<close>.
\<close>

definition nextClick :: "bool \<Rightarrow> App \<Rightarrow> View \<Rightarrow> App \<times> View" where
  "nextClick ok app v =
     (case handleNext v of
        (v', None) \<Rightarrow> (app, v')
      | (v', Some questionId) \<Rightarrow> (handleMarkAsPracticed ok questionId app, v'))"

text \<open>
  The effect that runs when \<^verbatim>\<open>currentQuestion\<close> changes: the note draft becomes the stored
  note of the current question, \<^verbatim>\<open>currentQuestion.userNote || ''\<close>, or the empty string
  when there is no current question.
\<close>

definition currentQuestionEffect :: "View \<Rightarrow> View" where
  "currentQuestionEffect v =
     (case currentQuestion v of
        Some q \<Rightarrow> v\<lparr>noteDraft := (case userNote q of Some n \<Rightarrow> n | None \<Rightarrow> [])\<rparr>
      | None \<Rightarrow> v\<lparr>noteDraft := []\<rparr>)"

text \<open>
  What the component does once \<^verbatim>\<open>handleUpdateQuestionNote\<close>, \<^verbatim>\<open>handleToggleMark\<close> or
  \<^verbatim>\<open>handleMarkAsPracticed\<close> has saved the bank \<open>qs\<close> for the id \<open>i\<close>. The effect on
  \<^verbatim>\<open>questions\<close> runs and sets the decks; in the next render the current question is read
  from them, and the effect on \<^verbatim>\<open>currentQuestion\<close> runs unless it is the object it was.
  The decks hold objects of the bank, and each of the three handlers builds a new object
  for exactly the questions with the id \<open>i\<close> and keeps the other objects. So the current
  question is the object it was when it has the same content as before and another id
  than \<open>i\<close>, or when there was none and there is none.
\<close>

definition afterUpdate ::
  "jsstring \<Rightarrow> (nat \<Rightarrow> rat) \<Rightarrow> nat \<Rightarrow> Question list \<Rightarrow> View \<Rightarrow> View \<times> nat" where
  "afterUpdate i rnd k qs v =
     (case questionsEffect rnd k qs v of
        (v', k') \<Rightarrow>
          (if currentQuestion v' = currentQuestion v
                \<and> (case currentQuestion v' of Some q \<Rightarrow> qid q \<noteq> i | None \<Rightarrow> True)
           then v'
           else currentQuestionEffect v', k'))"

text \<open>
  A click on the star of the current question: \<^verbatim>\<open>onToggleMark(currentQuestion.id)\<close>, where
  \<^verbatim>\<open>onToggleMark\<close> is \<^verbatim>\<open>handleToggleMark\<close>. The star is rendered only with a current
  question. When the write throws, \<open>questions\<close> is not replaced and no effect runs.
\<close>

definition toggleMarkClick ::
  "bool \<Rightarrow> (nat \<Rightarrow> rat) \<Rightarrow> nat \<Rightarrow> App \<Rightarrow> View \<Rightarrow> App \<times> View \<times> nat" where
  "toggleMarkClick ok rnd k app v =
     (case currentQuestion v of
        None \<Rightarrow> (app, v, k)
      | Some q \<Rightarrow>
          (let app' = handleToggleMark ok (qid q) app
           in if ok then (app', afterUpdate (qid q) rnd k (questions app') v)
              else (app', v, k)))"

subsection \<open>Concrete banks\<close>

text \<open>
  A bank of \<open>n\<close> distinct unpractised questions, with the ids "old0", "old1", ..., and a
  batch of \<open>n\<close> further ones, with the ids "new0", "new1", ..., used to run the handlers
  on concrete states.
\<close>

definition sampleOptions :: "QOption list" where
  "sampleOptions = [\<lparr>otext = js ''no'', isCorrect = False\<rparr>, \<lparr>otext = js ''yes'', isCorrect = True\<rparr>]"

definition sampleQuestion :: "jsstring \<Rightarrow> nat \<Rightarrow> Question" where
  "sampleQuestion tag i =
     \<lparr>qid = tag @ digits i, questionText = js ''Q'', options = sampleOptions,
      explanation = js ''E'', userNote = None, isMarked = None, hasBeenPracticed = Some False\<rparr>"

definition sampleBank :: "nat \<Rightarrow> Question list" where
  "sampleBank n = map (sampleQuestion (js ''old'')) [0..<n]"

definition sampleBatch :: "nat \<Rightarrow> Question list" where
  "sampleBatch n = map (sampleQuestion (js ''new'')) [0..<n]"

definition sampleApp :: "nat \<Rightarrow> App" where
  "sampleApp n = \<lparr>questions = sampleBank n, stored = Some (sampleBank n), modalState = closedModal\<rparr>"

text \<open>
  A session in the New phase over the bank of \<open>n\<close> questions, at the position \<open>p\<close>, with an
  answer selected, an option eliminated, the explanation shown and the timer stopped at 42.
\<close>

definition sampleView :: "nat \<Rightarrow> nat \<Rightarrow> View" where
  "sampleView n p =
     \<lparr>newDeck = sampleBank n, practicedDeck = [], deckPosition = p, isPracticingNew = True,
      selectedAnswer = Some (js ''yes''), showExplanation = True, isAnalysisMode = False,
      focusNewOnly = False, noteDraft = [], eliminatedOptions = {js ''no''}, time = 42,
      isTimerRunning = False\<rparr>"

text \<open>
  The session over the bank of two questions as it is after the first question was
  answered, analysis mode switched on and a note typed but not saved.
\<close>

definition draftView :: View where
  "draftView = (sampleView 2 0)\<lparr>isAnalysisMode := True, noteDraft := js ''sign error''\<rparr>"

subsection \<open>Concrete inputs of the parser\<close>

text \<open>
  A runtime whose random values are all 0, which a template literal renders as "0", and
  whose clock reads \<open>t\<close> at every call.
\<close>

definition sampleRuntime :: "nat \<Rightarrow> Runtime" where
  "sampleRuntime t = \<lparr>mathRandom = (\<lambda>k. 0), dateNow = (\<lambda>k. t), numberToString = (\<lambda>r. js ''0'')\<rparr>"

text \<open>The separators as strings, to write inputs with.\<close>

definition pairSep :: jsstring where
  "pairSep = [8710, 8710, 8710, 8710, 8710]"

definition contentSep :: jsstring where
  "contentSep = [167, 167, 167, 167]"

text \<open>
  One pair: question "Q1", the lines "$Correct" and "(euro)Wrong", explanation "Because."
  closed by five carets.
\<close>

definition exampleText :: jsstring where
  "exampleText = js ''Q1 '' @ pairSep @ js '' $Correct'' @ [10, 8364] @ js ''Wrong ''
      @ contentSep @ js '' Because. ^^^^^''"

text \<open>One pair whose option block has the lines "$A", "$B" and "(euro)C": the dollar twice.\<close>

definition duplicateText :: jsstring where
  "duplicateText = js ''Q '' @ pairSep @ js '' $A'' @ [10] @ js ''$B'' @ [10, 8364] @ js ''C ''
      @ contentSep @ js '' E''"

text \<open>Two pairs; the option block of the second has the single line "$only".\<close>

definition twoPairsText :: jsstring where
  "twoPairsText = js ''Q1 '' @ pairSep @ js '' $A'' @ [10, 8364] @ js ''B '' @ contentSep @ js '' E1 ''
      @ pairSep @ js '' Q2 '' @ pairSep @ js '' $only '' @ contentSep @ js '' E2''"

text \<open>One pair with the lines "$A", a euro sign followed by two blanks, and "(yen)C".\<close>

definition bareSymbolText :: jsstring where
  "bareSymbolText = js ''Q '' @ pairSep @ js '' $A'' @ [10, 8364, 32, 32, 10, 165] @ js ''C ''
      @ contentSep @ js '' E''"

section \<open>Properties of the bank\<close>

lemma length_sampleBank: "length (sampleBank n) = n"
  by (simp add: sampleBank_def)

lemma length_sampleBatch: "length (sampleBatch n) = n"
  by (simp add: sampleBatch_def)

lemma questions_sampleApp: "questions (sampleApp n) = sampleBank n"
  by (simp add: sampleApp_def)

text \<open>
  C1. The specification says that the add operation never leaves more than 5000 stored questions. The
  confirmation dialog says the bank is capped at \<open>MAX_QUESTIONS\<close>, but the confirmed path
  removes a fixed 50 questions whatever the size of the batch. Here the code is run on a
  full bank of 5000 and a batch of 51 parsed questions, with the user confirming: 5001
  questions are stored.
\<close>

theorem add_exceeds_capacity:
  "length (questions (handleModalConfirm True
      (handleSaveNewQuestions True (sampleBatch 51) (sampleApp 5000)))) = 5001
   \<and> 5001 > MAX_QUESTIONS"
  by (simp add: handleModalConfirm_def handleSaveNewQuestions_def saveQuestions_def Let_def
      questions_sampleApp length_sampleBank length_sampleBatch
      MAX_QUESTIONS_def DELETION_CHUNK_SIZE_def)

text \<open>
  C2. The specification says that whenever the add triggers the eviction and the user
  confirms, the bank becomes the existing sequence without its first 50 entries, followed
  by the incoming questions. \<^verbatim>\<open>saveQuestions\<close> replaces the in-memory bank only after the
  write to the storage, inside the same \<^verbatim>\<open>try\<close>. Here the add of 10 questions to a bank of
  4995 is confirmed and the write throws: the bank is the one before, the dialog is closed
  and the batch is gone.
\<close>

theorem confirm_with_failed_write_keeps_bank:
  "length (questions (sampleApp 4995)) + length (sampleBatch 10) > MAX_QUESTIONS
   \<and> questions (handleModalConfirm False (handleSaveNewQuestions True (sampleBatch 10) (sampleApp 4995)))
       = sampleBank 4995
   \<and> questions (handleModalConfirm False (handleSaveNewQuestions True (sampleBatch 10) (sampleApp 4995)))
       \<noteq> drop DELETION_CHUNK_SIZE (sampleBank 4995) @ sampleBatch 10
   \<and> modalState (handleModalConfirm False (handleSaveNewQuestions True (sampleBatch 10) (sampleApp 4995)))
       = closedModal"
proof -
  have h: "length (questions (sampleApp 4995)) + length (sampleBatch 10) > MAX_QUESTIONS"
    by (simp add: questions_sampleApp length_sampleBank length_sampleBatch MAX_QUESTIONS_def)
  have q: "questions (handleModalConfirm False (handleSaveNewQuestions True (sampleBatch 10) (sampleApp 4995)))
       = sampleBank 4995"
    using h by (simp add: handleModalConfirm_def handleSaveNewQuestions_def saveQuestions_def Let_def
        questions_sampleApp)
  have "length (sampleBank 4995) \<noteq> length (drop DELETION_CHUNK_SIZE (sampleBank 4995) @ sampleBatch 10)"
    by (simp add: length_sampleBank length_sampleBatch DELETION_CHUNK_SIZE_def)
  then have n: "sampleBank 4995 \<noteq> drop DELETION_CHUNK_SIZE (sampleBank 4995) @ sampleBatch 10"
    by metis
  have m: "modalState (handleModalConfirm False (handleSaveNewQuestions True (sampleBatch 10) (sampleApp 4995)))
       = closedModal"
    by (simp add: handleModalConfirm_def saveQuestions_def Let_def)
  from h q n m show ?thesis by (simp only:) simp
qed

text \<open>
  C2, as it holds. When the existing count plus the incoming count exceeds \<open>MAX_QUESTIONS\<close>,
  the add opens the dialog; when the user confirms and the write to the storage succeeds,
  the bank becomes the existing sequence without its first \<open>DELETION_CHUNK_SIZE\<close> entries,
  followed by the incoming questions in their order. The entries removed are the ones the
  dialog listed, the storage holds the same sequence, and the dialog is closed. (A bank
  shorter than 50 loses all its entries: \<open>slice(50)\<close> of it is empty.)
\<close>

theorem confirm_evicts_oldest_then_appends:
  assumes "length (questions s) + length new > MAX_QUESTIONS" and "w"
  shows "questions (handleModalConfirm w (handleSaveNewQuestions ok new s))
           = drop DELETION_CHUNK_SIZE (questions s) @ new
       \<and> questions s = questionsToDelete (handleSaveNewQuestions ok new s)
                          @ drop DELETION_CHUNK_SIZE (questions s)
       \<and> stored (handleModalConfirm w (handleSaveNewQuestions ok new s))
           = Some (drop DELETION_CHUNK_SIZE (questions s) @ new)
       \<and> modalState (handleModalConfirm w (handleSaveNewQuestions ok new s)) = closedModal"
  using assms
  by (simp add: handleModalConfirm_def handleSaveNewQuestions_def saveQuestions_def Let_def
      questionsToDelete_def)

theorem confirm_evicts_oldest_then_appends_witness:
  "length (questions (sampleApp 4995)) + length (sampleBatch 10) > MAX_QUESTIONS
   \<and> questions (handleModalConfirm True (handleSaveNewQuestions True (sampleBatch 10) (sampleApp 4995)))
       = drop 50 (sampleBank 4995) @ sampleBatch 10
   \<and> length (questions (handleModalConfirm True
       (handleSaveNewQuestions True (sampleBatch 10) (sampleApp 4995)))) = 4955"
proof -
  have h: "length (questions (sampleApp 4995)) + length (sampleBatch 10) > MAX_QUESTIONS"
    by (simp add: questions_sampleApp length_sampleBank length_sampleBatch MAX_QUESTIONS_def)
  from confirm_evicts_oldest_then_appends [OF h TrueI, of True] h show ?thesis
    by (simp add: questions_sampleApp length_sampleBank length_sampleBatch
        DELETION_CHUNK_SIZE_def)
qed

text \<open>
  C3. When the add would exceed the capacity and the user declines, the state is the state
  before the add with the dialog closed and empty: the in-memory bank and the stored bank
  are unchanged, and nothing of the batch remains in the state, so no later operation can
  commit it.
\<close>

theorem cancel_leaves_bank_and_drops_batch:
  assumes "length (questions s) + length new > MAX_QUESTIONS"
  shows "handleModalCancel (handleSaveNewQuestions ok new s) = s\<lparr>modalState := closedModal\<rparr>
       \<and> questions (handleModalCancel (handleSaveNewQuestions ok new s)) = questions s
       \<and> stored (handleModalCancel (handleSaveNewQuestions ok new s)) = stored s
       \<and> newQuestions (modalState (handleModalCancel (handleSaveNewQuestions ok new s))) = []"
  using assms
  by (simp add: handleModalCancel_def handleSaveNewQuestions_def closedModal_def)

theorem cancel_leaves_bank_and_drops_batch_witness:
  "length (questions (sampleApp 4995)) + length (sampleBatch 10) > MAX_QUESTIONS
   \<and> handleModalCancel (handleSaveNewQuestions True (sampleBatch 10) (sampleApp 4995))
       = sampleApp 4995"
proof -
  have h: "length (questions (sampleApp 4995)) + length (sampleBatch 10) > MAX_QUESTIONS"
    by (simp add: questions_sampleApp length_sampleBank length_sampleBatch MAX_QUESTIONS_def)
  from cancel_leaves_bank_and_drops_batch [OF h, of True] h show ?thesis
    by (simp add: sampleApp_def)
qed

lemma sampleBank_1: "sampleBank (Suc 0) = [sampleQuestion (js ''old'') 0]"
  by (simp add: sampleBank_def)

text \<open>
  C8. The specification says that toggling the mark of a question twice returns the bank
  to its original state. Each toggle replaces the in-memory bank only when its write to
  the storage succeeds. Here the first write succeeds and the second throws: the question,
  unmarked at first, stays marked, whatever is made of an absent \<open>isMarked\<close>.
\<close>

theorem toggle_twice_with_failed_write_flips_mark:
  "map (truthy \<circ> isMarked) (questions (sampleApp 1)) = [False]
   \<and> map (truthy \<circ> isMarked)
        (questions (handleToggleMark False (js ''old0'') (handleToggleMark True (js ''old0'') (sampleApp 1))))
       = [True]
   \<and> map withDefaultMark
        (questions (handleToggleMark False (js ''old0'') (handleToggleMark True (js ''old0'') (sampleApp 1))))
       \<noteq> map withDefaultMark (questions (sampleApp 1))"
  by (simp add: handleToggleMark_def saveQuestions_def questions_sampleApp sampleBank_1
      sampleQuestion_def js_def digits.simps withDefaultMark_def)

text \<open>
  C8, as it holds. When the two writes to the storage have the same outcome (in
  particular when both succeed), toggling the mark of an id twice returns the bank to its
  original state, an absent \<open>isMarked\<close> counting as its default false: every question is
  the one it was, and the questions with another id are untouched to the letter. A single
  toggle whose write succeeds flips the mark of the questions with that id, so that the
  mark goes from false to true and back to false.
\<close>

theorem toggle_twice_restores_bank:
  assumes "w1 = w2"
  shows "map withDefaultMark (questions (handleToggleMark w2 i (handleToggleMark w1 i s)))
           = map withDefaultMark (questions s)
       \<and> filter (\<lambda>q. qid q \<noteq> i) (questions (handleToggleMark w2 i (handleToggleMark w1 i s)))
           = filter (\<lambda>q. qid q \<noteq> i) (questions s)
       \<and> map (truthy \<circ> isMarked) (filter (\<lambda>q. qid q = i) (questions (handleToggleMark True i s)))
           = map (Not \<circ> truthy \<circ> isMarked) (filter (\<lambda>q. qid q = i) (questions s))"
proof -
  let ?t = "\<lambda>q. if qid q = i then q\<lparr>isMarked := Some (\<not> truthy (isMarked q))\<rparr> else q"
  have once: "questions (handleToggleMark True i a) = map ?t (questions a)" for a
    by (simp add: handleToggleMark_def saveQuestions_def)
  have none: "questions (handleToggleMark False i a) = questions a" for a
    by (simp add: handleToggleMark_def saveQuestions_def)
  have d: "withDefaultMark (?t (?t q)) = withDefaultMark q" for q
    by (cases "isMarked q") (simp_all add: withDefaultMark_def)
  have keep: "filter (\<lambda>q. qid q \<noteq> i) (map ?t qs) = filter (\<lambda>q. qid q \<noteq> i) qs" for qs
    by (induction qs) simp_all
  have flip: "map (truthy \<circ> isMarked) (filter (\<lambda>q. qid q = i) (map ?t qs))
      = map (Not \<circ> truthy \<circ> isMarked) (filter (\<lambda>q. qid q = i) qs)" for qs
    by (induction qs) simp_all
  have twice: "map withDefaultMark (questions (handleToggleMark w2 i (handleToggleMark w1 i s)))
           = map withDefaultMark (questions s)"
  proof (cases w1)
    case True
    with assms have "w2" by simp
    with True have "questions (handleToggleMark w2 i (handleToggleMark w1 i s))
        = map ?t (map ?t (questions s))"
      by (simp only: once)
    then show ?thesis by (simp add: d comp_def)
  next
    case False
    with assms have "\<not> w2" by simp
    with False show ?thesis by (simp add: none)
  qed
  have others: "filter (\<lambda>q. qid q \<noteq> i) (questions (handleToggleMark w2 i (handleToggleMark w1 i s)))
           = filter (\<lambda>q. qid q \<noteq> i) (questions s)"
  proof (cases w1)
    case True
    with assms have "w2" by simp
    with True have "questions (handleToggleMark w2 i (handleToggleMark w1 i s))
        = map ?t (map ?t (questions s))"
      by (simp only: once)
    then show ?thesis by (simp only: keep)
  next
    case False
    with assms have "\<not> w2" by simp
    with False show ?thesis by (simp add: none)
  qed
  from twice others flip [of "questions s"] show ?thesis
    by (simp only: once)
qed

theorem toggle_twice_restores_bank_witness:
  "map (truthy \<circ> isMarked) (questions (sampleApp 1)) = [False]
   \<and> map (truthy \<circ> isMarked) (questions (handleToggleMark True (js ''old0'') (sampleApp 1))) = [True]
   \<and> map (truthy \<circ> isMarked)
        (questions (handleToggleMark True (js ''old0'') (handleToggleMark True (js ''old0'') (sampleApp 1))))
       = [False]
   \<and> map withDefaultMark
        (questions (handleToggleMark True (js ''old0'') (handleToggleMark True (js ''old0'') (sampleApp 1))))
       = map withDefaultMark (questions (sampleApp 1))"
proof -
  have a: "map (truthy \<circ> isMarked) (questions (sampleApp 1)) = [False]"
    by (simp add: questions_sampleApp sampleBank_1 sampleQuestion_def)
  have b: "map (truthy \<circ> isMarked) (questions (handleToggleMark True (js ''old0'') (sampleApp 1))) = [True]"
    by (simp add: handleToggleMark_def saveQuestions_def questions_sampleApp sampleBank_1
      sampleQuestion_def js_def digits.simps)
  have c: "map (truthy \<circ> isMarked)
        (questions (handleToggleMark True (js ''old0'') (handleToggleMark True (js ''old0'') (sampleApp 1))))
       = [False]"
    by (simp add: handleToggleMark_def saveQuestions_def questions_sampleApp sampleBank_1
      sampleQuestion_def js_def digits.simps)
  from toggle_twice_restores_bank [of True True "js ''old0''" "sampleApp 1"] a b c
  show ?thesis by blast
qed

section \<open>Properties of shuffleArray\<close>

lemma draw_in_range:
  assumes "validRandom rnd"
  shows "nat \<lfloor>rnd k * of_nat (Suc m + 1)\<rfloor> < Suc m + 1"
proof -
  from assms have r: "0 \<le> rnd k" "rnd k < 1" by (auto simp: validRandom_def)
  have "rnd k * of_nat (Suc m + 1) < of_nat (Suc m + 1)"
    using r by (simp add: mult_less_cancel_right2)
  then have "\<lfloor>rnd k * of_nat (Suc m + 1)\<rfloor> < int (Suc m + 1)"
    by (simp add: floor_less_iff)
  then show ?thesis by linarith
qed

lemma length_swap: "length (swap i j xs) = length xs"
  by (simp add: swap_def)

lemma mset_swap_in_range: "i < length xs \<Longrightarrow> j < length xs \<Longrightarrow> mset (swap i j xs) = mset xs"
  unfolding swap_def by (rule mset_swap)

lemma length_shuffleFrom: "length (fst (shuffleFrom rnd k m xs)) = length xs"
  by (induction m arbitrary: k xs) (simp_all add: Let_def length_swap)

lemma mset_shuffleFrom:
  "validRandom rnd \<Longrightarrow> m < length xs \<Longrightarrow> mset (fst (shuffleFrom rnd k m xs)) = mset xs"
proof (induction m arbitrary: k xs)
  case 0
  then show ?case by simp
next
  case (Suc m)
  let ?j = "nat \<lfloor>rnd k * of_nat (Suc m + 1)\<rfloor>"
  have j: "?j < length xs"
    using draw_in_range [OF Suc.prems(1), of k m] Suc.prems(2) by linarith
  have "mset (fst (shuffleFrom rnd (k + 1) m (swap (Suc m) ?j xs))) = mset (swap (Suc m) ?j xs)"
    using Suc.prems by (intro Suc.IH) (simp_all add: length_swap)
  also have "\<dots> = mset xs"
    using Suc.prems(2) j by (rule mset_swap_in_range)
  finally show ?case by (simp add: Let_def)
qed

lemma length_shuffleArray: "length (fst (shuffleArray rnd k xs)) = length xs"
  by (simp add: shuffleArray_def length_shuffleFrom)

lemma mset_shuffleArray:
  assumes "validRandom rnd"
  shows "mset (fst (shuffleArray rnd k xs)) = mset xs"
proof (cases xs)
  case Nil
  then show ?thesis by (simp add: shuffleArray_def)
next
  case (Cons x ys)
  then have "length xs - 1 < length xs" by simp
  with assms show ?thesis by (simp add: shuffleArray_def mset_shuffleFrom)
qed

lemma set_shuffleArray: "validRandom rnd \<Longrightarrow> set (fst (shuffleArray rnd k xs)) = set xs"
  by (metis mset_shuffleArray set_mset_mset)

lemma snd_shuffleFrom: "snd (shuffleFrom rnd k m xs) = k + m"
  by (induction m arbitrary: k xs) (simp_all add: Let_def)

lemma snd_shuffleArray: "snd (shuffleArray rnd k xs) = k + (length xs - 1)"
  by (simp add: shuffleArray_def snd_shuffleFrom)

section \<open>Properties of the parser\<close>

lemma mapLine_Some_text: "mapLine seen l = (Some opt, seen') \<Longrightarrow> otext opt \<noteq> []"
  by (auto simp: mapLine_def split: option.splits prod.splits if_splits)

lemma mapLines_text_nonempty: "opt \<in> set (fst (mapLines seen ls)) \<Longrightarrow> otext opt \<noteq> []"
proof (induction ls arbitrary: seen)
  case Nil
  then show ?case by simp
next
  case (Cons l ls)
  obtain r seen' where ml: "mapLine seen l = (r, seen')" by (cases "mapLine seen l")
  show ?case
  proof (cases r)
    case None
    with ml Cons show ?thesis by simp
  next
    case (Some o')
    with ml Cons.prems have "opt = o' \<or> opt \<in> set (fst (mapLines seen' ls))"
      by (auto split: prod.splits)
    with Some ml Cons.IH show ?thesis by (auto dest: mapLine_Some_text)
  qed
qed

lemma questionOfLines_Some:
  assumes "questionOfLines rt i qt e ls pos = (Some q, pos')"
  shows "1 < length (fst (mapLines {} ls))"
    and "list_ex isCorrect (fst (mapLines {} ls))"
    and "options q = fst (shuffleArray (mathRandom rt) (fst pos + 1) (fst (mapLines {} ls)))"
    and "questionText q = qt" and "explanation q = e"
  using assms
  by (auto simp: questionOfLines_def Let_def split: if_splits prod.splits)

lemma parsePair_Some:
  assumes "parsePair rt i p0 p1 pos = (Some q, pos')"
  shows "\<exists>qt e ls. questionOfLines rt i qt e ls pos = (Some q, pos')"
proof -
  from assms have "\<exists>qt e ls. questionOfLines rt i qt e ls pos = (Some q, pos')
      \<or> (None :: Question option, pos) = (Some q, pos')"
    unfolding parsePair_def Let_def
    by (simp split: list.splits if_splits) blast+
  then show ?thesis by simp
qed

lemma parsePairs_member:
  "q \<in> set (parsePairs rt i parts pos) \<Longrightarrow>
     \<exists>j qt e ls p p'. questionOfLines rt j qt e ls p = (Some q, p')"
proof (induction rt i parts pos rule: parsePairs.induct)
  case (1 rt i part0 part1 rest pos)
  obtain r pos' where pp: "parsePair rt i part0 part1 pos = (r, pos')"
    by (cases "parsePair rt i part0 part1 pos")
  show ?case
  proof (cases r)
    case None
    with pp 1 show ?thesis by simp
  next
    case (Some q')
    with pp "1.prems" have "q = q' \<or> q \<in> set (parsePairs rt (i + 2) rest pos')" by simp
    then show ?thesis
    proof
      assume "q = q'"
      with pp Some parsePair_Some show ?thesis by blast
    next
      assume "q \<in> set (parsePairs rt (i + 2) rest pos')"
      with pp Some "1.IH"(2) show ?thesis by simp
    qed
  qed
qed simp_all

lemma parsed_member:
  assumes "q \<in> set (parsed (parseGeneratedText rt txt))"
  shows "\<exists>j qt e ls p p'. questionOfLines rt j qt e ls p = (Some q, p')"
proof -
  from assms have "q \<in> set (parsePairs rt 0
      (filter nonBlank (split [8710, 8710, 8710, 8710, 8710] (unescape txt))) (0, 0))"
    by (simp add: parseGeneratedText_def Let_def split: if_splits)
  then show ?thesis by (rule parsePairs_member)
qed

lemma mapLines_append:
  "mapLines seen (xs @ ys) =
     (fst (mapLines seen xs) @ fst (mapLines (snd (mapLines seen xs)) ys),
      snd (mapLines (snd (mapLines seen xs)) ys))"
  by (induction xs arbitrary: seen) (auto split: prod.splits option.splits)

lemma mapLine_seen_symbol:
  "symbolAndText (trim l) = Some (symb, t) \<Longrightarrow> symb \<in> seen \<Longrightarrow> mapLine seen l = (None, seen)"
  by (simp add: mapLine_def)

lemma mapLines_drop_duplicate:
  assumes "symbolAndText (trim l) = Some (symb, t)" and "symb \<in> snd (mapLines {} pre)"
  shows "mapLines {} (pre @ l # post) = mapLines {} (pre @ post)"
  using mapLine_seen_symbol [OF assms]
  by (simp add: mapLines_append)

lemma questionOfLines_cong:
  "mapLines {} ls = mapLines {} ls' \<Longrightarrow>
     questionOfLines rt i qt e ls pos = questionOfLines rt i qt e ls' pos"
  by (simp add: questionOfLines_def)

lemma questionOfLines_accepts:
  assumes "1 < length (fst (mapLines {} ls))" and "list_ex isCorrect (fst (mapLines {} ls))"
  shows "\<exists>q pos'. questionOfLines rt i qt e ls pos = (Some q, pos')"
  using assms by (simp add: questionOfLines_def split: prod.splits)

lemma symbols_not_space: "symb \<in> set symbols \<Longrightarrow> \<not> isSpace symb"
  by (auto simp: symbols_def isSpace_def)

lemma trim_symbol_only:
  assumes "list_all isSpace ws1" "list_all isSpace ws2" "\<not> isSpace c" "\<not> isSpace d"
  shows "trim (ws1 @ c # ws2) = [c]" and "trim (ws1 @ d # c # ws2) = [d, c]"
proof -
  have l: "dropWhile isSpace (ws1 @ zs) = dropWhile isSpace zs" for zs
    by (rule dropWhile_append2) (use assms(1) in \<open>simp add: list_all_iff\<close>)
  have r: "dropWhile isSpace (rev ws2 @ zs) = dropWhile isSpace zs" for zs
    by (rule dropWhile_append2) (use assms(2) in \<open>simp add: list_all_iff\<close>)
  show "trim (ws1 @ c # ws2) = [c]"
    using assms(3) by (simp add: trim_def l r)
  show "trim (ws1 @ d # c # ws2) = [d, c]"
    using assms(3,4) by (simp add: trim_def l r)
qed

lemma mapLine_symbol_only:
  assumes "symb \<in> set symbols" "list_all isSpace ws1" "list_all isSpace ws2"
  shows "mapLine seen (ws1 @ symb # ws2) = (None, seen)"
    and "mapLine seen (ws1 @ 92 # symb # ws2) = (None, seen)"
proof -
  have s: "\<not> isSpace symb" using assms(1) by (rule symbols_not_space)
  have b: "\<not> isSpace 92" by (simp add: isSpace_def)
  have t0: "trim [] = []" by (simp add: trim_def)
  show "mapLine seen (ws1 @ symb # ws2) = (None, seen)"
    using assms(1) by (simp add: mapLine_def trim_symbol_only(1) [OF assms(2,3) s s] t0)
  show "mapLine seen (ws1 @ 92 # symb # ws2) = (None, seen)"
    using assms(1) by (simp add: mapLine_def trim_symbol_only(2) [OF assms(2,3) s b] t0)
qed

lemma questionOfLines_clock:
  assumes "mathRandom rt' = mathRandom rt"
  shows "map_option stripId (fst (questionOfLines rt' i qt e ls pos))
           = map_option stripId (fst (questionOfLines rt i qt e ls pos))"
    and "snd (questionOfLines rt' i qt e ls pos) = snd (questionOfLines rt i qt e ls pos)"
  using assms by (simp_all add: questionOfLines_def Let_def stripId_def split: prod.splits)

lemma parsePair_clock:
  assumes "mathRandom rt' = mathRandom rt"
  shows "map_option stripId (fst (parsePair rt' i p0 p1 pos))
           = map_option stripId (fst (parsePair rt i p0 p1 pos))"
    and "snd (parsePair rt' i p0 p1 pos) = snd (parsePair rt i p0 p1 pos)"
  using questionOfLines_clock [OF assms]
  by (simp_all add: parsePair_def Let_def split: list.splits)

lemma parsePairs_clock:
  assumes "mathRandom rt' = mathRandom rt"
  shows "map stripId (parsePairs rt' i parts pos) = map stripId (parsePairs rt i parts pos)"
  using assms
proof (induction rt i parts pos rule: parsePairs.induct)
  case (1 rt i part0 part1 rest pos)
  note assms = "1.prems"
  obtain r p where a: "parsePair rt i part0 part1 pos = (r, p)"
    by (cases "parsePair rt i part0 part1 pos")
  obtain r' p' where b: "parsePair rt' i part0 part1 pos = (r', p')"
    by (cases "parsePair rt' i part0 part1 pos")
  have r: "map_option stripId r' = map_option stripId r" and p: "p' = p"
    using parsePair_clock [OF assms, of i part0 part1 pos] a b by simp_all
  show ?case
  proof (cases r)
    case None
    with r have "r' = None" by simp
    with None a b p "1.IH"(1) assms show ?thesis by simp
  next
    case (Some q)
    with r obtain q' where q': "r' = Some q'" "stripId q' = stripId q" by (cases r') auto
    with Some a b p "1.IH"(2) assms show ?thesis by simp
  qed
qed simp_all

lemma parse_clock:
  assumes "mathRandom rt' = mathRandom rt"
  shows "error (parseGeneratedText rt' txt) = error (parseGeneratedText rt txt)"
    and "map stripId (parsed (parseGeneratedText rt' txt))
           = map stripId (parsed (parseGeneratedText rt txt))"
proof -
  let ?parts = "filter nonBlank (split [8710, 8710, 8710, 8710, 8710] (unescape txt))"
  have m: "map stripId (parsePairs rt' 0 ?parts (0, 0)) = map stripId (parsePairs rt 0 ?parts (0, 0))"
    using assms by (rule parsePairs_clock)
  then have "length (map stripId (parsePairs rt' 0 ?parts (0, 0)))
      = length (map stripId (parsePairs rt 0 ?parts (0, 0)))" by simp
  then have l: "length (parsePairs rt' 0 ?parts (0, 0)) = length (parsePairs rt 0 ?parts (0, 0))"
    by simp
  then have e: "parsePairs rt' 0 ?parts (0, 0) = [] \<longleftrightarrow> parsePairs rt 0 ?parts (0, 0) = []"
    by (metis length_0_conv)
  show "error (parseGeneratedText rt' txt) = error (parseGeneratedText rt txt)"
    by (simp add: parseGeneratedText_def Let_def e)
  show "map stripId (parsed (parseGeneratedText rt' txt))
           = map stripId (parsed (parseGeneratedText rt txt))"
    by (simp add: parseGeneratedText_def Let_def e m)
qed

subsection \<open>The parser on the concrete inputs\<close>

lemmas parse_eval = parseGeneratedText_def sampleRuntime_def js_def split_def trim_def isSpace_def isWord_def
     nonBlank_def parsePair_def questionOfLines_def mapLine_def symbols_def shuffleArray_def swap_def
     pairSep_def contentSep_def digits.simps

lemma parse_exampleText: "parseGeneratedText (sampleRuntime 1700000000000) exampleText =
  \<lparr>parsed = [\<lparr>qid = js ''q_1700000000000_0_0'', questionText = js ''Q1'',
       options = [\<lparr>otext = js ''Wrong'', isCorrect = False\<rparr>, \<lparr>otext = js ''Correct'', isCorrect = True\<rparr>],
        explanation = js ''Because.'', userNote = None,
        isMarked = None, hasBeenPracticed = Some False\<rparr>], error = None\<rparr>"
  by (simp add: exampleText_def parse_eval)

lemma parse_duplicateText: "parseGeneratedText (sampleRuntime 1700000000000) duplicateText =
  \<lparr>parsed = [\<lparr>qid = js ''q_1700000000000_0_0'', questionText = js ''Q'',
       options = [\<lparr>otext = js ''C'', isCorrect = False\<rparr>, \<lparr>otext = js ''A'', isCorrect = True\<rparr>],
        explanation = js ''E'', userNote = None,
        isMarked = None, hasBeenPracticed = Some False\<rparr>], error = None\<rparr>"
  by (simp add: duplicateText_def parse_eval)

lemma parse_twoPairsText: "parseGeneratedText (sampleRuntime 1700000000000) twoPairsText =
  \<lparr>parsed = [\<lparr>qid = js ''q_1700000000000_0_0'', questionText = js ''Q1'',
       options = [\<lparr>otext = js ''B'', isCorrect = False\<rparr>, \<lparr>otext = js ''A'', isCorrect = True\<rparr>],
        explanation = js ''E1'', userNote = None,
        isMarked = None, hasBeenPracticed = Some False\<rparr>], error = None\<rparr>"
  by (simp add: twoPairsText_def parse_eval)

lemma parse_bareSymbolText: "parseGeneratedText (sampleRuntime 1700000000000) bareSymbolText =
  \<lparr>parsed = [\<lparr>qid = js ''q_1700000000000_0_0'', questionText = js ''Q'',
       options = [\<lparr>otext = js ''C'', isCorrect = False\<rparr>, \<lparr>otext = js ''A'', isCorrect = True\<rparr>],
        explanation = js ''E'', userNote = None,
        isMarked = None, hasBeenPracticed = Some False\<rparr>], error = None\<rparr>"
  by (simp add: bareSymbolText_def parse_eval)

subsection \<open>Claims about the parser\<close>

lemma validRandom_sampleRuntime: "validRandom (mathRandom (sampleRuntime t))"
  by (simp add: validRandom_def sampleRuntime_def)

text \<open>
  C4. Every question returned by the parser has at least two options and at least one
  correct option, whatever the input text, the clock and the random values (each in the
  range of \<^verbatim>\<open>Math.random()\<close>). A candidate whose surviving options fail this test gives
  no question, no error of its own, and consumes nothing from the runtime.
\<close>

theorem parsed_questions_have_two_options_one_correct:
  assumes "validRandom (mathRandom rt)"
  shows "(\<forall>q\<in>set (parsed (parseGeneratedText rt txt)).
            2 \<le> length (options q) \<and> (\<exists>opt\<in>set (options q). isCorrect opt))
       \<and> (\<not> (1 < length (fst (mapLines {} ls)) \<and> list_ex isCorrect (fst (mapLines {} ls)))
            \<longrightarrow> questionOfLines rt i qt e ls pos = (None, pos))"
proof (intro conjI ballI)
  fix q
  assume "q \<in> set (parsed (parseGeneratedText rt txt))"
  from parsed_member [OF this] obtain j qt e ls p p'
    where ql: "questionOfLines rt j qt e ls p = (Some q, p')" by blast
  note f = questionOfLines_Some [OF ql]
  have "length (options q) = length (fst (mapLines {} ls))"
    by (simp add: f(3) length_shuffleArray)
  then show "2 \<le> length (options q)" using f(1) by simp
  have "set (options q) = set (fst (mapLines {} ls))"
    by (simp add: f(3) set_shuffleArray assms)
  then show "\<exists>opt\<in>set (options q). isCorrect opt" using f(2) by (simp add: list_ex_iff)
next
  show "\<not> (1 < length (fst (mapLines {} ls)) \<and> list_ex isCorrect (fst (mapLines {} ls)))
          \<longrightarrow> questionOfLines rt i qt e ls pos = (None, pos)"
    by (auto simp: questionOfLines_def Let_def)
qed

theorem parsed_questions_have_two_options_one_correct_witness:
  "validRandom (mathRandom (sampleRuntime 1700000000000))
   \<and> length (parsed (parseGeneratedText (sampleRuntime 1700000000000) twoPairsText)) = 1
   \<and> error (parseGeneratedText (sampleRuntime 1700000000000) twoPairsText) = None
   \<and> list_all (\<lambda>q. 2 \<le> length (options q) \<and> (\<exists>opt\<in>set (options q). isCorrect opt))
         (parsed (parseGeneratedText (sampleRuntime 1700000000000) twoPairsText))
   \<and> questionOfLines (sampleRuntime 1700000000000) 2 (js ''Q2'') (js ''E2'') [js ''$only''] (1, 1)
       = (None, (1, 1))"
proof -
  have v: "validRandom (mathRandom (sampleRuntime 1700000000000))"
    by (rule validRandom_sampleRuntime)
  have n: "\<not> (1 < length (fst (mapLines {} [js ''$only''])) \<and> list_ex isCorrect (fst (mapLines {} [js ''$only''])))"
    by (simp add: mapLine_def js_def trim_def isSpace_def symbols_def)
  from parsed_questions_have_two_options_one_correct
         [OF v, of twoPairsText "[js ''$only'']" 2 "js ''Q2''" "js ''E2''" "(1, 1)"] v n
  show ?thesis by (simp add: parse_twoPairsText list_all_iff)
qed

text \<open>
  C5. In the option block of one question, a line whose symbol is in the set of symbols
  seen so far (the symbols of the earlier lines that gave an option) gives no option and
  changes nothing else: the options, and the question built, are those of the block
  without that line. The question is accepted whenever the options that remain are more
  than one and one of them is correct, that is, came from a dollar line.
\<close>

theorem duplicate_symbol_line_discarded_alone:
  assumes "symbolAndText (trim l) = Some (symb, t)" and "symb \<in> snd (mapLines {} pre)"
  shows "mapLine (snd (mapLines {} pre)) l = (None, snd (mapLines {} pre))
       \<and> fst (mapLines {} (pre @ l # post)) = fst (mapLines {} (pre @ post))
       \<and> questionOfLines rt i qt e (pre @ l # post) pos = questionOfLines rt i qt e (pre @ post) pos
       \<and> (1 < length (fst (mapLines {} (pre @ post)))
            \<and> list_ex isCorrect (fst (mapLines {} (pre @ post)))
          \<longrightarrow> fst (questionOfLines rt i qt e (pre @ l # post) pos) \<noteq> None)"
proof -
  have d: "mapLines {} (pre @ l # post) = mapLines {} (pre @ post)"
    using assms by (rule mapLines_drop_duplicate)
  have q: "questionOfLines rt i qt e (pre @ l # post) pos = questionOfLines rt i qt e (pre @ post) pos"
    using d by (rule questionOfLines_cong)
  have a: "fst (questionOfLines rt i qt e (pre @ post) pos) \<noteq> None"
    if "1 < length (fst (mapLines {} (pre @ post)))" "list_ex isCorrect (fst (mapLines {} (pre @ post)))"
    using questionOfLines_accepts [OF that, of rt i qt e pos] by auto
  show ?thesis
    using mapLine_seen_symbol [OF assms] d q a by simp
qed

theorem duplicate_symbol_line_discarded_alone_witness:
  "symbolAndText (trim (js ''$B'')) = Some (36, js ''B'')
   \<and> 36 \<in> snd (mapLines {} [js ''$A''])
   \<and> fst (mapLines {} ([js ''$A''] @ js ''$B'' # [8364 # js ''C'']))
       = [\<lparr>otext = js ''A'', isCorrect = True\<rparr>, \<lparr>otext = js ''C'', isCorrect = False\<rparr>]
   \<and> fst (questionOfLines (sampleRuntime 1700000000000) 0 (js ''Q'') (js ''E'')
            ([js ''$A''] @ js ''$B'' # [8364 # js ''C'']) (0, 0)) \<noteq> None
   \<and> map options (parsed (parseGeneratedText (sampleRuntime 1700000000000) duplicateText))
       = [[\<lparr>otext = js ''C'', isCorrect = False\<rparr>, \<lparr>otext = js ''A'', isCorrect = True\<rparr>]]"
proof -
  have h1: "symbolAndText (trim (js ''$B'')) = Some (36, js ''B'')"
    by (simp add: js_def trim_def isSpace_def symbols_def)
  have h2: "36 \<in> snd (mapLines {} [js ''$A''])"
    by (simp add: mapLine_def js_def trim_def isSpace_def symbols_def)
  have r: "fst (mapLines {} ([js ''$A''] @ [8364 # js ''C'']))
       = [\<lparr>otext = js ''A'', isCorrect = True\<rparr>, \<lparr>otext = js ''C'', isCorrect = False\<rparr>]"
    by (simp add: mapLine_def js_def trim_def isSpace_def symbols_def)
  have p: "1 < length (fst (mapLines {} ([js ''$A''] @ [8364 # js ''C''])))
      \<and> list_ex isCorrect (fst (mapLines {} ([js ''$A''] @ [8364 # js ''C''])))"
    by (simp only: r) simp
  note t = duplicate_symbol_line_discarded_alone
         [OF h1 h2, of "[8364 # js ''C'']" "sampleRuntime 1700000000000" 0 "js ''Q''" "js ''E''" "(0, 0)"]
  from t r have c3: "fst (mapLines {} ([js ''$A''] @ js ''$B'' # [8364 # js ''C'']))
       = [\<lparr>otext = js ''A'', isCorrect = True\<rparr>, \<lparr>otext = js ''C'', isCorrect = False\<rparr>]"
    by (simp only:)
  from t p have c4: "fst (questionOfLines (sampleRuntime 1700000000000) 0 (js ''Q'') (js ''E'')
            ([js ''$A''] @ js ''$B'' # [8364 # js ''C'']) (0, 0)) \<noteq> None"
    by blast
  have c5: "map options (parsed (parseGeneratedText (sampleRuntime 1700000000000) duplicateText))
       = [[\<lparr>otext = js ''C'', isCorrect = False\<rparr>, \<lparr>otext = js ''A'', isCorrect = True\<rparr>]]"
    by (simp add: parse_duplicateText)
  from h1 h2 c3 c4 c5 show ?thesis by blast
qed

text \<open>
  C9. No option of a question returned by the parser has an empty text. A line that, apart
  from white space around it, is only a correctness symbol, or a backslash and a
  correctness symbol, gives no option and leaves the set of seen symbols as it is, exactly
  as a line without a symbol does.
\<close>

theorem option_text_is_never_empty:
  assumes "validRandom (mathRandom rt)"
  shows "(\<forall>q\<in>set (parsed (parseGeneratedText rt txt)). \<forall>opt\<in>set (options q). otext opt \<noteq> [])
       \<and> (symb \<in> set symbols \<and> list_all isSpace ws1 \<and> list_all isSpace ws2
          \<longrightarrow> mapLine seen (ws1 @ symb # ws2) = (None, seen)
              \<and> mapLine seen (ws1 @ 92 # symb # ws2) = (None, seen))"
proof (intro conjI ballI impI)
  fix q opt
  assume "q \<in> set (parsed (parseGeneratedText rt txt))" and o: "opt \<in> set (options q)"
  from parsed_member [OF this(1)] obtain j qt e ls p p'
    where ql: "questionOfLines rt j qt e ls p = (Some q, p')" by blast
  have "set (options q) = set (fst (mapLines {} ls))"
    by (simp add: questionOfLines_Some(3) [OF ql] set_shuffleArray assms)
  with o show "otext opt \<noteq> []" by (simp add: mapLines_text_nonempty)
next
  assume "symb \<in> set symbols \<and> list_all isSpace ws1 \<and> list_all isSpace ws2"
  then show "mapLine seen (ws1 @ symb # ws2) = (None, seen)"
    by (simp add: mapLine_symbol_only(1))
next
  assume "symb \<in> set symbols \<and> list_all isSpace ws1 \<and> list_all isSpace ws2"
  then show "mapLine seen (ws1 @ 92 # symb # ws2) = (None, seen)"
    by (simp add: mapLine_symbol_only(2))
qed

theorem option_text_is_never_empty_witness:
  "validRandom (mathRandom (sampleRuntime 1700000000000))
   \<and> 36 \<in> set symbols \<and> list_all isSpace [] \<and> list_all isSpace [32, 32, 32]
   \<and> mapLine {} (js ''$   '') = (None, {})
   \<and> mapLine {} (92 # js ''$   '') = (None, {})
   \<and> map (map otext \<circ> options) (parsed (parseGeneratedText (sampleRuntime 1700000000000) bareSymbolText))
       = [[js ''C'', js ''A'']]
   \<and> list_all (\<lambda>q. list_all (\<lambda>opt. otext opt \<noteq> []) (options q))
         (parsed (parseGeneratedText (sampleRuntime 1700000000000) bareSymbolText))"
proof -
  have v: "validRandom (mathRandom (sampleRuntime 1700000000000))"
    by (rule validRandom_sampleRuntime)
  have h: "36 \<in> set symbols \<and> list_all isSpace [] \<and> list_all isSpace [32, 32, 32]"
    by (simp add: symbols_def isSpace_def)
  from option_text_is_never_empty [OF v, of bareSymbolText 36 "[]" "[32, 32, 32]" "{}"] v h
  show ?thesis by (simp add: parse_bareSymbolText js_def list_all_iff)
qed

text \<open>
  C7. The specification says that two calls of the parser with the same text and the same
  random values return identical results, ids included. Every id contains the value of \<^verbatim>\<open>Date.now()\<close>
  at the time the question is built, so two calls that differ only in the clock return
  different ids.
\<close>

theorem parse_ids_depend_on_clock:
  "mathRandom (sampleRuntime 1700000000001) = mathRandom (sampleRuntime 1700000000000)
   \<and> numberToString (sampleRuntime 1700000000001) = numberToString (sampleRuntime 1700000000000)
   \<and> map qid (parsed (parseGeneratedText (sampleRuntime 1700000000000) exampleText))
       = [js ''q_1700000000000_0_0'']
   \<and> map qid (parsed (parseGeneratedText (sampleRuntime 1700000000001) exampleText))
       = [js ''q_1700000000001_0_0'']
   \<and> parseGeneratedText (sampleRuntime 1700000000001) exampleText
       \<noteq> parseGeneratedText (sampleRuntime 1700000000000) exampleText"
proof -
  have a: "map qid (parsed (parseGeneratedText (sampleRuntime 1700000000000) exampleText))
       = [js ''q_1700000000000_0_0'']"
    by (simp add: parse_exampleText)
  have b: "map qid (parsed (parseGeneratedText (sampleRuntime 1700000000001) exampleText))
       = [js ''q_1700000000001_0_0'']"
    by (simp add: exampleText_def parse_eval)
  have "[js ''q_1700000000001_0_0''] \<noteq> [js ''q_1700000000000_0_0'']"
    by (simp add: js_def)
  with a b have "parseGeneratedText (sampleRuntime 1700000000001) exampleText
       \<noteq> parseGeneratedText (sampleRuntime 1700000000000) exampleText"
    by metis
  with a b show ?thesis by (simp add: sampleRuntime_def)
qed

text \<open>
  C7, as it holds. The result of the parser is a function of the text, the random values
  and the clock values. Two calls with the same text and the same random values return
  the same error and the same questions apart from their ids: same number and order of
  questions, same texts, explanations, options in the same order, and flags. When the
  clock values and the rendering of numbers agree as well, the results are identical.
\<close>

theorem parse_depends_on_text_random_and_clock:
  assumes "mathRandom rt' = mathRandom rt"
  shows "error (parseGeneratedText rt' txt) = error (parseGeneratedText rt txt)
       \<and> map stripId (parsed (parseGeneratedText rt' txt))
           = map stripId (parsed (parseGeneratedText rt txt))
       \<and> (dateNow rt' = dateNow rt \<and> numberToString rt' = numberToString rt
            \<longrightarrow> parseGeneratedText rt' txt = parseGeneratedText rt txt)"
proof -
  have "rt' = rt" if "dateNow rt' = dateNow rt" "numberToString rt' = numberToString rt"
    using assms that by simp
  then show ?thesis using parse_clock [OF assms] by auto
qed

theorem parse_depends_on_text_random_and_clock_witness:
  "mathRandom (sampleRuntime 1700000000001) = mathRandom (sampleRuntime 1700000000000)
   \<and> error (parseGeneratedText (sampleRuntime 1700000000001) exampleText) = None
   \<and> error (parseGeneratedText (sampleRuntime 1700000000000) exampleText) = None
   \<and> map stripId (parsed (parseGeneratedText (sampleRuntime 1700000000001) exampleText))
       = map stripId (parsed (parseGeneratedText (sampleRuntime 1700000000000) exampleText))
   \<and> map (map otext \<circ> options) (parsed (parseGeneratedText (sampleRuntime 1700000000001) exampleText))
       = [[js ''Wrong'', js ''Correct'']]"
proof -
  have h: "mathRandom (sampleRuntime 1700000000001) = mathRandom (sampleRuntime 1700000000000)"
    by (simp add: sampleRuntime_def)
  note t = parse_depends_on_text_random_and_clock [OF h, of exampleText]
  have e0: "error (parseGeneratedText (sampleRuntime 1700000000000) exampleText) = None"
    by (simp add: parse_exampleText)
  with t have e1: "error (parseGeneratedText (sampleRuntime 1700000000001) exampleText) = None"
    by simp
  from t have m: "map stripId (parsed (parseGeneratedText (sampleRuntime 1700000000001) exampleText))
       = map stripId (parsed (parseGeneratedText (sampleRuntime 1700000000000) exampleText))"
    by blast
  have "map (map otext \<circ> options) qs = map (map otext \<circ> options) (map stripId qs)" for qs
    by (simp add: stripId_def)
  then have "map (map otext \<circ> options) (parsed (parseGeneratedText (sampleRuntime 1700000000001) exampleText))
       = map (map otext \<circ> options) (parsed (parseGeneratedText (sampleRuntime 1700000000000) exampleText))"
    using m by metis
  then have o: "map (map otext \<circ> options) (parsed (parseGeneratedText (sampleRuntime 1700000000001) exampleText))
       = [[js ''Wrong'', js ''Correct'']]"
    by (simp add: parse_exampleText)
  from h e0 e1 m o show ?thesis by blast
qed

section \<open>Properties of the practice session\<close>

lemma find_by_id:
  "find (\<lambda>q. qid q = i) qs = None \<longleftrightarrow> i \<notin> qid ` set qs"
  by (auto simp: find_None_iff)

lemma updateDeck_Cons:
  "updateDeck qs (dq # deck) =
     (case find (\<lambda>q. qid q = qid dq) qs of
        None \<Rightarrow> updateDeck qs deck
      | Some q \<Rightarrow> q # updateDeck qs deck)"
  by (simp add: updateDeck_def split: option.splits)

lemma updateDeck_Nil: "updateDeck qs [] = []"
  by (simp add: updateDeck_def)

lemma find_Some_id: "find (\<lambda>q. qid q = i) qs = Some q \<Longrightarrow> qid q = i \<and> q \<in> set qs"
  by (auto simp: find_Some_iff)

lemma updateDeck_ids:
  "map qid (updateDeck qs deck) = filter (\<lambda>i. i \<in> qid ` set qs) (map qid deck)"
proof (induction deck)
  case Nil
  show ?case by (simp add: updateDeck_Nil)
next
  case (Cons dq deck)
  show ?case
  proof (cases "find (\<lambda>q. qid q = qid dq) qs")
    case None
    then have "qid dq \<notin> qid ` set qs" by (simp add: find_by_id)
    with None Cons show ?thesis by (simp add: updateDeck_Cons)
  next
    case (Some q)
    then have "qid q = qid dq" "q \<in> set qs" by (auto dest: find_Some_id)
    then have "qid dq \<in> qid ` set qs" by (metis imageI)
    with Some Cons \<open>qid q = qid dq\<close> show ?thesis by (simp add: updateDeck_Cons)
  qed
qed

lemma updateDeck_subset: "set (updateDeck qs deck) \<subseteq> set qs"
proof (induction deck)
  case Nil
  show ?case by (simp add: updateDeck_Nil)
next
  case (Cons dq deck)
  then show ?case
    by (auto simp: updateDeck_Cons split: option.splits dest: find_Some_id)
qed

lemma updateDeck_all_present:
  assumes "qid ` set deck \<subseteq> qid ` set qs"
  shows "map qid (updateDeck qs deck) = map qid deck"
proof -
  have "filter (\<lambda>i. i \<in> qid ` set qs) (map qid deck) = map qid deck"
    using assms by (intro filter_True) auto
  then show ?thesis by (simp add: updateDeck_ids)
qed

lemma counts_sum: "length (filter isNew qs) + length (filter isPracticed qs) = length qs"
  by (induction qs) (simp_all add: isNew_def isPracticed_def)

lemma length_change_changes_counts:
  assumes "countsUnchanged qs v" "length qs' \<noteq> length qs"
  shows "\<not> countsUnchanged qs' v"
  using assms counts_sum [of qs] counts_sum [of qs']
  by (auto simp: countsUnchanged_def)

lemma delete_shortens:
  assumes "i \<in> qid ` set qs"
  shows "length (filter (\<lambda>q. qid q \<noteq> i) qs) < length qs"
proof -
  from assms obtain q where "q \<in> set qs" "\<not> qid q \<noteq> i" by auto
  then show ?thesis by (rule length_filter_less)
qed

lemma mark_practiced_counts:
  "length (filter isNew (map (\<lambda>q. if qid q = i then q\<lparr>hasBeenPracticed := Some True\<rparr> else q) qs))
     = length (filter (\<lambda>q. isNew q \<and> qid q \<noteq> i) qs)"
  by (induction qs) (auto simp: isNew_def)

lemma mark_practiced_fewer_new:
  assumes "q \<in> set qs" "qid q = i" "isNew q"
  shows "length (filter isNew (map (\<lambda>q. if qid q = i then q\<lparr>hasBeenPracticed := Some True\<rparr> else q) qs))
           < length (filter isNew qs)"
proof -
  have "filter (\<lambda>q. isNew q \<and> qid q \<noteq> i) qs = filter (\<lambda>q. qid q \<noteq> i) (filter isNew qs)"
    by (simp add: conj_commute)
  moreover have "length (filter (\<lambda>q. qid q \<noteq> i) (filter isNew qs)) < length (filter isNew qs)"
    using assms by (intro length_filter_less [of q]) auto
  ultimately show ?thesis by (simp only: mark_practiced_counts)
qed

lemma effect_minor:
  assumes "countsUnchanged qs v"
  shows "questionsEffect rnd k qs v =
           (v\<lparr>newDeck := updateDeck qs (newDeck v), practicedDeck := updateDeck qs (practicedDeck v)\<rparr>, k)"
  using assms by (simp add: questionsEffect_def)

subsection \<open>Claims about the practice session\<close>

text \<open>
  C10. The Next button exists only while there is a current question (without one the
  handler returns at once). With a current question, \<^verbatim>\<open>handleNext\<close> always clears the
  selected answer and the eliminated options, hides the explanation and restarts the timer
  at 0. At a terminal
  position (the one at which the Next button is disabled: last Review item, or last New
  item with focus-new-only set or an empty Review deck) nothing else changes. In the New
  phase the callback is called with the id of the current question, and the bank then
  holds every question of that id as practised.
\<close>

theorem next_resets_scratch_even_without_advance:
  assumes "currentQuestion v = Some q"
  shows "selectedAnswer (fst (handleNext v)) = None
       \<and> showExplanation (fst (handleNext v)) = False
       \<and> eliminatedOptions (fst (handleNext v)) = {}
       \<and> time (fst (handleNext v)) = 0
       \<and> isTimerRunning (fst (handleNext v))
       \<and> (disableNextButton v \<longrightarrow>
            fst (handleNext v) = v\<lparr>selectedAnswer := None, showExplanation := False,
              eliminatedOptions := {}, time := 0, isTimerRunning := True\<rparr>)
       \<and> (isPracticingNew v \<longrightarrow>
            snd (handleNext v) = Some (qid q)
            \<and> fst (nextClick True app v) = handleMarkAsPracticed True (qid q) app
            \<and> (\<forall>x\<in>set (questions (fst (nextClick True app v))).
                  qid x = qid q \<longrightarrow> hasBeenPracticed x = Some True))"
proof -
  have scratch: "selectedAnswer (fst (handleNext v)) = None
       \<and> showExplanation (fst (handleNext v)) = False
       \<and> eliminatedOptions (fst (handleNext v)) = {}
       \<and> time (fst (handleNext v)) = 0
       \<and> isTimerRunning (fst (handleNext v))"
    using assms by (simp add: handleNext_def Let_def)
  have terminal: "fst (handleNext v) = v\<lparr>selectedAnswer := None, showExplanation := False,
              eliminatedOptions := {}, time := 0, isTimerRunning := True\<rparr>"
    if "disableNextButton v"
    using assms that
    by (auto simp: handleNext_def disableNextButton_def activeDeck_def Let_def)
  have cb: "snd (handleNext v) = Some (qid q)" if "isPracticingNew v"
    using assms that by (simp add: handleNext_def Let_def)
  have click: "fst (nextClick True app v) = handleMarkAsPracticed True (qid q) app"
    if "isPracticingNew v"
    using cb [OF that] by (cases "handleNext v") (simp add: nextClick_def)
  have marked: "\<forall>x\<in>set (questions (handleMarkAsPracticed True (qid q) app)).
      qid x = qid q \<longrightarrow> hasBeenPracticed x = Some True"
    by (auto simp: handleMarkAsPracticed_def saveQuestions_def)
  from scratch terminal cb click marked show ?thesis by simp
qed

theorem next_resets_scratch_even_without_advance_witness:
  "currentQuestion (sampleView 1 0) = Some (sampleQuestion (js ''old'') 0)
   \<and> disableNextButton (sampleView 1 0)
   \<and> isPracticingNew (sampleView 1 0)
   \<and> selectedAnswer (sampleView 1 0) = Some (js ''yes'')
   \<and> fst (handleNext (sampleView 1 0))
       = (sampleView 1 0)\<lparr>selectedAnswer := None, showExplanation := False,
              eliminatedOptions := {}, time := 0, isTimerRunning := True\<rparr>
   \<and> deckPosition (fst (handleNext (sampleView 1 0))) = 0
   \<and> snd (handleNext (sampleView 1 0)) = Some (js ''old0'')
   \<and> map hasBeenPracticed (questions (fst (nextClick True (sampleApp 1) (sampleView 1 0)))) = [Some True]"
proof -
  have c: "currentQuestion (sampleView 1 0) = Some (sampleQuestion (js ''old'') 0)"
    by (simp add: currentQuestion_def activeDeck_def sampleView_def sampleBank_1)
  have d: "disableNextButton (sampleView 1 0)"
    by (simp add: disableNextButton_def sampleView_def sampleBank_1)
  have n: "isPracticingNew (sampleView 1 0)" and a: "selectedAnswer (sampleView 1 0) = Some (js ''yes'')"
    and p: "deckPosition (sampleView 1 0) = 0"
    by (simp_all add: sampleView_def)
  have i: "qid (sampleQuestion (js ''old'') 0) = js ''old0''"
    by (simp add: sampleQuestion_def js_def digits.simps)
  note t = next_resets_scratch_even_without_advance [OF c, of "sampleApp 1"]
  from t d have f: "fst (handleNext (sampleView 1 0))
       = (sampleView 1 0)\<lparr>selectedAnswer := None, showExplanation := False,
              eliminatedOptions := {}, time := 0, isTimerRunning := True\<rparr>"
    by blast
  from f p have p': "deckPosition (fst (handleNext (sampleView 1 0))) = 0" by simp
  from t n i have s: "snd (handleNext (sampleView 1 0)) = Some (js ''old0'')"
    by simp
  from t n i have "fst (nextClick True (sampleApp 1) (sampleView 1 0))
      = handleMarkAsPracticed True (js ''old0'') (sampleApp 1)"
    by simp
  then have m: "map hasBeenPracticed (questions (fst (nextClick True (sampleApp 1) (sampleView 1 0))))
      = [Some True]"
    by (simp add: handleMarkAsPracticed_def saveQuestions_def questions_sampleApp sampleBank_1
        sampleQuestion_def js_def digits.simps)
  from c d n a f p' s m show ?thesis by blast
qed

lemma sampleBank_2: "sampleBank 2 = [sampleQuestion (js ''old'') 0, sampleQuestion (js ''old'') 1]"
  by (simp add: sampleBank_def upt_rec numeral_2_eq_2)

lemmas sample_eval = sampleView_def sampleApp_def sampleBank_2 sampleBatch_def sampleQuestion_def
  sampleOptions_def js_def digits.simps closedModal_def countsUnchanged_def isNew_def
  isPracticed_def saveQuestions_def

text \<open>
  C6. The specification says that a change of the bank which leaves the two counts as they
  are, such as marking a question, refreshes the decks in place and preserves the position
  and all scratch state, the note draft being part of it. The comment in the effect says
  the same: the question data is updated without resetting the view. Here the session is
  on the first of two new questions, answered, with analysis mode on and the note "sign
  error" typed but not saved, and the star of the current question is clicked. The counts
  are unchanged and the effect refreshes the decks; the refreshed current question is a
  new object, so the effect on the current question runs and replaces the draft by the
  stored note, which is empty. Position, answer, eliminated options and timer are kept;
  the draft is lost.
\<close>

theorem starring_overwrites_note_draft:
  "currentQuestion draftView = Some (sampleQuestion (js ''old'') 0)
   \<and> noteDraft draftView = js ''sign error''
   \<and> fst (toggleMarkClick True (\<lambda>k. 0) 0 (sampleApp 2) draftView)
       = handleToggleMark True (js ''old0'') (sampleApp 2)
   \<and> countsUnchanged (questions (handleToggleMark True (js ''old0'') (sampleApp 2))) draftView
   \<and> fst (snd (toggleMarkClick True (\<lambda>k. 0) 0 (sampleApp 2) draftView))
       = draftView\<lparr>newDeck := questions (handleToggleMark True (js ''old0'') (sampleApp 2)),
                    noteDraft := []\<rparr>
   \<and> noteDraft (fst (snd (toggleMarkClick True (\<lambda>k. 0) 0 (sampleApp 2) draftView))) = []
   \<and> selectedAnswer (fst (snd (toggleMarkClick True (\<lambda>k. 0) 0 (sampleApp 2) draftView)))
       = Some (js ''yes'')
   \<and> deckPosition (fst (snd (toggleMarkClick True (\<lambda>k. 0) 0 (sampleApp 2) draftView))) = 0"
proof -
  let ?app = "handleToggleMark True (js ''old0'') (sampleApp 2)"
  have c: "currentQuestion draftView = Some (sampleQuestion (js ''old'') 0)"
    by (simp add: currentQuestion_def activeDeck_def draftView_def sampleView_def sampleBank_2)
  have i: "qid (sampleQuestion (js ''old'') 0) = js ''old0''"
    by (simp add: sampleQuestion_def js_def digits.simps)
  have n: "noteDraft draftView = js ''sign error''"
    by (simp add: draftView_def)
  have u: "countsUnchanged (questions ?app) draftView"
    by (simp add: handleToggleMark_def draftView_def sample_eval)
  have e: "questionsEffect (\<lambda>k. 0) 0 (questions ?app) draftView
      = (draftView\<lparr>newDeck := questions ?app\<rparr>, 0)"
    by (simp add: effect_minor [OF u])
       (simp add: handleToggleMark_def draftView_def sample_eval updateDeck_def)
  have q: "currentQuestion (draftView\<lparr>newDeck := questions ?app\<rparr>)
      = Some ((sampleQuestion (js ''old'') 0)\<lparr>isMarked := Some True\<rparr>)"
    by (simp add: currentQuestion_def activeDeck_def handleToggleMark_def draftView_def sample_eval)
  have a: "afterUpdate (js ''old0'') (\<lambda>k. 0) 0 (questions ?app) draftView
      = (draftView\<lparr>newDeck := questions ?app, noteDraft := []\<rparr>, 0)"
    by (simp add: afterUpdate_def e q c currentQuestionEffect_def)
       (simp add: sampleQuestion_def js_def digits.simps)
  have t: "toggleMarkClick True (\<lambda>k. 0) 0 (sampleApp 2) draftView
      = (?app, draftView\<lparr>newDeck := questions ?app, noteDraft := []\<rparr>, 0)"
    by (simp add: toggleMarkClick_def c i a Let_def)
  have s: "selectedAnswer draftView = Some (js ''yes'')" and p: "deckPosition draftView = 0"
    by (simp_all add: draftView_def sampleView_def)
  from c n u s p show ?thesis by (simp add: t)
qed

end
